theory Spec2Isabelle
  imports Main "HOL-Library.Sublist"
begin

section \<open>Values exchanged with the webhooks\<close>

text \<open>
  The harness in \<^verbatim>\<open>n8n/test-workflows.py\<close> builds Python dictionaries, posts them as JSON and
  reads JSON back. One datatype covers both directions: a Python \<^verbatim>\<open>dict\<close> with string keys is
  \<open>JObj\<close> (its items in insertion order), a \<^verbatim>\<open>list\<close> is \<open>JArr\<close>, \<^verbatim>\<open>None\<close> is \<open>JNull\<close>.
  A float carries the text of its literal; the program never computes with one.
\<close>

datatype json =
    JNull
  | JBool bool
  | JInt int
  | JFloat string
  | JStr string
  | JArr "json list"
  | JObj "(string \<times> json) list"

text \<open>
  The exceptions that can be raised inside the \<^verbatim>\<open>try\<close> blocks, all subclasses of
  \<^verbatim>\<open>Exception\<close>: a failure of \<^verbatim>\<open>requests.post\<close> (time-out, refused connection, DNS, TLS),
  a body that \<^verbatim>\<open>response.json()\<close> cannot decode, a missing dictionary key, and an operation
  applied to a value of the wrong type.
\<close>

datatype exn =
    RequestException string
  | JSONDecodeError string
  | KeyError string
  | TypeError string

text \<open>A string between single quotes, as \<^verbatim>\<open>repr\<close> prints the keys and type names used here.\<close>

definition quoted :: "string \<Rightarrow> string" where
  "quoted s = [CHR 0x27] @ s @ [CHR 0x27]"

text \<open>\<^verbatim>\<open>str(e)\<close>: the message, except that a \<^verbatim>\<open>KeyError\<close> prints the \<^verbatim>\<open>repr\<close> of its key.\<close>

fun str_exn :: "exn \<Rightarrow> string" where
  "str_exn (RequestException m) = m"
| "str_exn (JSONDecodeError m) = m"
| "str_exn (KeyError k) = quoted k"
| "str_exn (TypeError m) = m"

definition bind_exn :: "exn + 'a \<Rightarrow> ('a \<Rightarrow> exn + 'b) \<Rightarrow> exn + 'b" where
  "bind_exn m f = (case m of Inl e \<Rightarrow> Inl e | Inr x \<Rightarrow> f x)"

fun type_name :: "json \<Rightarrow> string" where
  "type_name JNull = ''NoneType''"
| "type_name (JBool b) = ''bool''"
| "type_name (JInt i) = ''int''"
| "type_name (JFloat f) = ''float''"
| "type_name (JStr s) = ''str''"
| "type_name (JArr xs) = ''list''"
| "type_name (JObj kvs) = ''dict''"

text \<open>\<^verbatim>\<open>key in data\<close> for a string key: key membership on a dictionary, element membership on a
  list, substring test on a string, \<^verbatim>\<open>TypeError\<close> on anything else.\<close>

fun py_contains :: "string \<Rightarrow> json \<Rightarrow> exn + bool" where
  "py_contains k (JObj kvs) = Inr (k \<in> set (map fst kvs))"
| "py_contains k (JArr xs) = Inr (JStr k \<in> set xs)"
| "py_contains k (JStr s) = Inr (sublist k s)"
| "py_contains k v = Inl (TypeError (''argument of type '' @ quoted (type_name v) @ '' is not iterable''))"

text \<open>\<^verbatim>\<open>data[key]\<close> for a string key: \<^verbatim>\<open>KeyError\<close> on a dictionary without the key,
  \<^verbatim>\<open>TypeError\<close> on every value that is not a dictionary.\<close>

fun py_getitem :: "json \<Rightarrow> string \<Rightarrow> exn + json" where
  "py_getitem (JObj kvs) k = (case map_of kvs k of None \<Rightarrow> Inl (KeyError k) | Some v \<Rightarrow> Inr v)"
| "py_getitem (JArr xs) k = Inl (TypeError ''list indices must be integers or slices, not str'')"
| "py_getitem (JStr s) k = Inl (TypeError (''string indices must be integers, not '' @ quoted ''str''))"
| "py_getitem v k = Inl (TypeError (quoted (type_name v) @ '' object is not subscriptable''))"

text \<open>\<^verbatim>\<open>len(value)\<close>.\<close>

fun py_len :: "json \<Rightarrow> exn + nat" where
  "py_len (JObj kvs) = Inr (length kvs)"
| "py_len (JArr xs) = Inr (length xs)"
| "py_len (JStr s) = Inr (length s)"
| "py_len v = Inl (TypeError (''object of type '' @ quoted (type_name v) @ '' has no len()''))"

section \<open>Clock and timestamps\<close>

record datetime =
  year :: nat
  month :: nat
  day :: nat
  hour :: nat
  minute :: nat
  second :: nat
  microsecond :: nat

fun str_nat :: "nat \<Rightarrow> string" where
  "str_nat n = (if n < 10 then [''0123456789'' ! n]
                else str_nat (n div 10) @ [''0123456789'' ! (n mod 10)])"

declare str_nat.simps [simp del]

text \<open>The \<^verbatim>\<open>%0wd\<close> conversion: at least \<open>w\<close> digits, padded with zeros on the left.\<close>

definition zero_pad :: "nat \<Rightarrow> nat \<Rightarrow> string" where
  "zero_pad w n = replicate (w - length (str_nat n)) (CHR ''0'') @ str_nat n"

text \<open>\<^verbatim>\<open>datetime.isoformat()\<close> of a naive datetime: \<^verbatim>\<open>YYYY-MM-DDTHH:MM:SS\<close>, followed by
  \<^verbatim>\<open>.ffffff\<close> only when the microsecond field is not zero.\<close>

definition isoformat :: "datetime \<Rightarrow> string" where
  "isoformat d =
     zero_pad 4 (year d) @ ''-'' @ zero_pad 2 (month d) @ ''-'' @ zero_pad 2 (day d) @ ''T'' @
     zero_pad 2 (hour d) @ '':'' @ zero_pad 2 (minute d) @ '':'' @ zero_pad 2 (second d) @
     (if microsecond d = 0 then [] else ''.'' @ zero_pad 6 (microsecond d))"

section \<open>The network and the state of a run\<close>

record request =
  url :: string
  payload :: json
  timeout :: nat

text \<open>A response as the harness reads it: \<^verbatim>\<open>response.status_code\<close>, \<^verbatim>\<open>response.text\<close> and the
  result of \<^verbatim>\<open>response.json()\<close>, which raises when the body is not JSON.\<close>

datatype response = Response (status_code: int) (body_text: string) (json_of: "exn + json")

text \<open>
  The environment of a run: what \<^verbatim>\<open>requests.post\<close> does with a request, given the requests
  posted before it (it returns a response or raises), and what the \<open>k\<close>-th reading of
  \<^verbatim>\<open>datetime.utcnow()\<close> returns. The state of a run: the requests posted so far, oldest first,
  the number of clock readings and the seconds spent in \<^verbatim>\<open>time.sleep\<close>.
\<close>

record env =
  server :: "request list \<Rightarrow> request \<Rightarrow> exn + response"
  clock :: "nat \<Rightarrow> datetime"

record world =
  sent :: "request list"
  clock_reads :: nat
  slept :: nat

definition utcnow :: "env \<Rightarrow> world \<Rightarrow> datetime \<times> world" where
  "utcnow e w = (clock e (clock_reads w), w\<lparr>clock_reads := Suc (clock_reads w)\<rparr>)"

definition post :: "env \<Rightarrow> string \<Rightarrow> json \<Rightarrow> nat \<Rightarrow> world \<Rightarrow> (exn + response) \<times> world" where
  "post e u p t w =
     (let r = \<lparr>url = u, payload = p, timeout = t\<rparr>
      in (server e (sent w) r, w\<lparr>sent := sent w @ [r]\<rparr>))"

definition sleep :: "nat \<Rightarrow> world \<Rightarrow> world" where
  "sleep n w = w\<lparr>slept := slept w + n\<rparr>"

section \<open>The five scenarios\<close>

definition N8N_BASE_URL :: string where
  "N8N_BASE_URL = ''https://n8n.anikamaher.com/webhook''"

text \<open>
  Every scenario wraps its request and the reading of the response in
  \<^verbatim>\<open>try: ... except Exception as e: return False, {"error": str(e)}\<close>.
  The text a scenario prints is not modelled; the expressions it formats are evaluated, since
  they can raise inside the \<^verbatim>\<open>try\<close>.
\<close>

definition except_Exception :: "exn + (bool \<times> json) \<Rightarrow> bool \<times> json" where
  "except_Exception r =
     (case r of Inr v \<Rightarrow> v | Inl e \<Rightarrow> (False, JObj [(''error'', JStr (str_exn e))]))"

definition test_simple_webhook :: "env \<Rightarrow> world \<Rightarrow> (bool \<times> json) \<times> world" where
  "test_simple_webhook e w =
     (case utcnow e w of (now, w1) \<Rightarrow>
      let payload = JObj [(''test'', JStr ''simple''),
                          (''timestamp'', JStr (isoformat now @ ''Z''))]
      in case post e (N8N_BASE_URL @ ''/thub-test'') payload 10 w1 of (r, w2) \<Rightarrow>
      (except_Exception
         (bind_exn r (\<lambda>response.
            if status_code response = 200 then
              bind_exn (json_of response) (\<lambda>shown.
              bind_exn (json_of response) (\<lambda>data. Inr (True, data)))
            else Inr (False, JObj [(''error'', JStr (body_text response)),
                                   (''status'', JInt (status_code response))]))),
       w2))"

definition test_deploy_ready_webhook :: "env \<Rightarrow> world \<Rightarrow> (bool \<times> json) \<times> world" where
  "test_deploy_ready_webhook e w =
     (case utcnow e w of (now, w1) \<Rightarrow>
      let payload = JObj [(''action'', JStr ''test''),
                          (''source'', JStr ''python-test-script''),
                          (''timestamp'', JStr (isoformat now @ ''Z''))]
      in case post e (N8N_BASE_URL @ ''/test-webhook'') payload 15 w1 of (r, w2) \<Rightarrow>
      (except_Exception
         (bind_exn r (\<lambda>response.
            if status_code response = 200 then
              bind_exn (json_of response) (\<lambda>shown.
              bind_exn (json_of response) (\<lambda>data. Inr (True, data)))
            else Inr (False, JObj [(''error'', JStr (body_text response)),
                                   (''status'', JInt (status_code response))]))),
       w2))"

definition test_batch_analysis :: "env \<Rightarrow> world \<Rightarrow> (bool \<times> json) \<times> world" where
  "test_batch_analysis e w =
     (case utcnow e w of (now, w1) \<Rightarrow>
      let payload = JObj [(''symbols'', JArr [JStr ''AAPL'', JStr ''MSFT'', JStr ''GOOGL'',
                                              JStr ''TSLA'', JStr ''AMZN'', JStr ''META'',
                                              JStr ''NVDA'']),
                          (''priority'', JStr ''normal''),
                          (''metadata'', JObj [(''source'', JStr ''python-test-script''),
                                               (''test'', JBool True),
                                               (''timestamp'', JStr (isoformat now @ ''Z''))])]
      in case post e (N8N_BASE_URL @ ''/batch-analysis-trigger'') payload 20 w1 of (r, w2) \<Rightarrow>
      (except_Exception
         (bind_exn r (\<lambda>response.
            if status_code response = 200 then
              bind_exn (json_of response) (\<lambda>shown.
              bind_exn (json_of response) (\<lambda>data. Inr (True, data)))
            else Inr (False, JObj [(''error'', JStr (body_text response)),
                                   (''status'', JInt (status_code response))]))),
       w2))"

text \<open>Lines 153 to 157: the four fields of \<^verbatim>\<open>data['mockScan']\<close> are read in turn to be printed.\<close>

definition print_mock_scan :: "json \<Rightarrow> exn + unit" where
  "print_mock_scan data =
     bind_exn (py_getitem data ''mockScan'') (\<lambda>m1. bind_exn (py_getitem m1 ''totalScanned'') (\<lambda>v1.
     bind_exn (py_getitem data ''mockScan'') (\<lambda>m2. bind_exn (py_getitem m2 ''filtered'') (\<lambda>v2.
     bind_exn (py_getitem data ''mockScan'') (\<lambda>m3. bind_exn (py_getitem m3 ''queued'') (\<lambda>v3.
     bind_exn (py_getitem data ''mockScan'') (\<lambda>m4. bind_exn (py_getitem m4 ''candidates'') (\<lambda>v4.
     bind_exn (py_len v4) (\<lambda>n. Inr ())))))))))"

definition test_market_scan_action :: "env \<Rightarrow> world \<Rightarrow> (bool \<times> json) \<times> world" where
  "test_market_scan_action e w =
     (case utcnow e w of (now, w1) \<Rightarrow>
      let payload = JObj [(''action'', JStr ''market_scan''),
                          (''filters'', JObj [(''limit'', JInt 10),
                                              (''minVolume'', JInt 1000000),
                                              (''minPrice'', JInt 5),
                                              (''maxPrice'', JInt 500)]),
                          (''timestamp'', JStr (isoformat now @ ''Z''))]
      in case post e (N8N_BASE_URL @ ''/thub-test'') payload 10 w1 of (r, w2) \<Rightarrow>
      (except_Exception
         (bind_exn r (\<lambda>response.
            if status_code response = 200 then
              bind_exn (json_of response) (\<lambda>data.
              bind_exn (py_contains ''mockScan'' data) (\<lambda>present.
              bind_exn (if present then print_mock_scan data else Inr ()) (\<lambda>u.
              Inr (True, data))))
            else Inr (False, JObj [(''error'', JStr (body_text response)),
                                   (''status'', JInt (status_code response))]))),
       w2))"

definition test_invalid_payload :: "env \<Rightarrow> world \<Rightarrow> (bool \<times> json) \<times> world" where
  "test_invalid_payload e w =
     (let payload = JObj [(''symbols'', JArr []), (''priority'', JStr ''normal'')]
      in case post e (N8N_BASE_URL @ ''/batch-analysis-trigger'') payload 10 w of (r, w1) \<Rightarrow>
      (except_Exception
         (bind_exn r (\<lambda>response.
            if status_code response \<noteq> 200 then
              Inr (True, JObj [(''handled_correctly'', JBool True)])
            else bind_exn (json_of response) (\<lambda>data. Inr (False, data)))),
       w1))"

section \<open>The suite\<close>

definition GREEN :: string where
  "GREEN = CHR 0x1B # ''[92m''"

definition RED :: string where
  "RED = CHR 0x1B # ''[91m''"

definition RESET :: string where
  "RESET = CHR 0x1B # ''[0m''"

type_synonym test_func = "env \<Rightarrow> world \<Rightarrow> (bool \<times> json) \<times> world"

definition tests :: "(string \<times> test_func) list" where
  "tests =
     [(''Simple Webhook'', test_simple_webhook),
      (''Deploy-Ready Webhook'', test_deploy_ready_webhook),
      (''Batch Analysis'', test_batch_analysis),
      (''Market Scan Action'', test_market_scan_action),
      (''Error Handling'', test_invalid_payload)]"

text \<open>
  The loop of \<^verbatim>\<open>main\<close>: each scenario is called once, its name and verdict are appended to
  \<^verbatim>\<open>results\<close>, the dictionary it returned is dropped, and the run sleeps for one second.
\<close>

fun run_tests ::
  "(string \<times> test_func) list \<Rightarrow> env \<Rightarrow> (string \<times> bool) list \<Rightarrow> world
     \<Rightarrow> (string \<times> bool) list \<times> world" where
  "run_tests [] e results w = (results, w)"
| "run_tests ((test_name, test_func) # rest) e results w =
     (case test_func e w of ((success, data), w') \<Rightarrow>
        run_tests rest e (results @ [(test_name, success)]) (sleep 1 w'))"

text \<open>\<^verbatim>\<open>sum(1 for _, success in results if success)\<close> and its negated twin.\<close>

definition successful :: "(string \<times> bool) list \<Rightarrow> nat" where
  "successful results = length (filter (\<lambda>(n, success). success) results)"

definition failed :: "(string \<times> bool) list \<Rightarrow> nat" where
  "failed results = length (filter (\<lambda>(n, success). \<not> success) results)"

text \<open>The three lines of the printed tally.\<close>

definition tally :: "(string \<times> bool) list \<Rightarrow> string list" where
  "tally results =
     [''Total Tests: '' @ str_nat (length results),
      GREEN @ ''Successful: '' @ str_nat (successful results) @ RESET,
      RED @ ''Failed: '' @ str_nat (failed results) @ RESET]"

text \<open>\<^verbatim>\<open>main\<close> yields the tally it printed and the value it returns.\<close>

definition main :: "env \<Rightarrow> world \<Rightarrow> (string list \<times> bool) \<times> world" where
  "main e w =
     (case run_tests tests e [] w of (results, w') \<Rightarrow>
        ((tally results, successful results = length results), w'))"

text \<open>\<^verbatim>\<open>sys.exit(0 if success else 1)\<close>.\<close>

definition exit_status :: "env \<Rightarrow> world \<Rightarrow> int" where
  "exit_status e w = (if snd (fst (main e w)) then 0 else 1)"

section \<open>Observations of a run\<close>

text \<open>The \<^verbatim>\<open>results\<close> list that \<^verbatim>\<open>main\<close> has built when its loop ends.\<close>

definition main_results :: "env \<Rightarrow> world \<Rightarrow> (string \<times> bool) list" where
  "main_results e w = fst (run_tests tests e [] w)"

text \<open>The request a scenario posts when started in state \<open>w\<close>, and what the network did with it.\<close>

definition posted :: "test_func \<Rightarrow> env \<Rightarrow> world \<Rightarrow> request" where
  "posted t e w = last (sent (snd (t e w)))"

definition reply :: "test_func \<Rightarrow> env \<Rightarrow> world \<Rightarrow> exn + response" where
  "reply t e w = server e (sent w) (posted t e w)"

text \<open>\<^verbatim>\<open>d.get(key)\<close> on a dictionary.\<close>

fun dict_get :: "json \<Rightarrow> string \<Rightarrow> json option" where
  "dict_get (JObj kvs) k = map_of kvs k"
| "dict_get v k = None"

section \<open>Mocked endpoints\<close>

definition fixed_clock :: "nat \<Rightarrow> datetime" where
  "fixed_clock k = \<lparr>year = 2025, month = 7, day = 4, hour = 9, minute = 30, second = 5,
                    microsecond = 0\<rparr>"

definition world0 :: world where
  "world0 = \<lparr>sent = [], clock_reads = 0, slept = 0\<rparr>"

text \<open>An endpoint that cannot be reached: every request times out.\<close>

definition mock_down :: env where
  "mock_down = \<lparr>server = (\<lambda>log r. Inl (RequestException ''Read timed out.'')),
                clock = fixed_clock\<rparr>"

text \<open>An endpoint that answers every request with status 200 and a web page, not JSON.\<close>

definition mock_html :: env where
  "mock_html =
     \<lparr>server = (\<lambda>log r. Inr (Response 200 ''<html>ok</html>''
                  (Inl (JSONDecodeError ''Expecting value: line 1 column 1 (char 0)'')))),
      clock = fixed_clock\<rparr>"

text \<open>An endpoint that rejects every request with status 400 and a plain-text body.\<close>

definition mock_reject :: env where
  "mock_reject =
     \<lparr>server = (\<lambda>log r. Inr (Response 400 ''Bad Request''
                  (Inl (JSONDecodeError ''Expecting value: line 1 column 1 (char 0)'')))),
      clock = fixed_clock\<rparr>"

text \<open>An endpoint that answers status 200 with the body \<^verbatim>\<open>{"mockScan": {"totalScanned": 50}}\<close>.\<close>

definition mock_partial_scan :: env where
  "mock_partial_scan =
     \<lparr>server = (\<lambda>log r. Inr (Response 200 ''{\"mockScan\": {\"totalScanned\": 50}}''
                  (Inr (JObj [(''mockScan'', JObj [(''totalScanned'', JInt 50)])])))),
      clock = fixed_clock\<rparr>"

text \<open>The endpoint of the end-to-end example: status 200 with body \<^verbatim>\<open>{}\<close> for the first four
  requests of a run, status 422 for every later one.\<close>

definition mock_example :: env where
  "mock_example =
     \<lparr>server = (\<lambda>log r. if length log < 4 then Inr (Response 200 ''{}'' (Inr (JObj [])))
                          else Inr (Response 422 ''{\"message\": \"symbols required\"}''
                                 (Inr (JObj [(''message'', JStr ''symbols required'')])))),
      clock = fixed_clock\<rparr>"

section \<open>Facts about single scenarios and the loop\<close>

lemmas scenario_defs =
  test_simple_webhook_def test_deploy_ready_webhook_def test_batch_analysis_def
  test_market_scan_action_def test_invalid_payload_def

lemmas mock_defs = mock_down_def mock_html_def mock_reject_def mock_partial_scan_def
  mock_example_def world0_def fixed_clock_def

lemmas run_defs = scenario_defs utcnow_def post_def sleep_def except_Exception_def bind_exn_def
  posted_def reply_def N8N_BASE_URL_def

text \<open>
  Every scenario posts exactly one request: its log is the old log with that request appended.
\<close>

lemma one_post:
  "(n, t) \<in> set tests \<Longrightarrow> sent (snd (t e w)) = sent w @ [posted t e w]"
  unfolding posted_def
  by (auto simp: tests_def scenario_defs utcnow_def post_def Let_def split: prod.splits)

text \<open>
  What each scenario returns, as a function of what the network did with its request. The two
  calls of \<^verbatim>\<open>response.json()\<close> in the first three scenarios give the same result, so one remains.
\<close>

lemma verdict_simple:
  "fst (test_simple_webhook e w) =
     except_Exception (bind_exn (reply test_simple_webhook e w) (\<lambda>response.
        if status_code response = 200 then
          bind_exn (json_of response) (\<lambda>data. Inr (True, data))
        else Inr (False, JObj [(''error'', JStr (body_text response)),
                               (''status'', JInt (status_code response))])))"
  unfolding reply_def posted_def
  by (auto simp: test_simple_webhook_def utcnow_def post_def Let_def bind_exn_def
      split: prod.splits sum.splits)

lemma verdict_deploy_ready:
  "fst (test_deploy_ready_webhook e w) =
     except_Exception (bind_exn (reply test_deploy_ready_webhook e w) (\<lambda>response.
        if status_code response = 200 then
          bind_exn (json_of response) (\<lambda>data. Inr (True, data))
        else Inr (False, JObj [(''error'', JStr (body_text response)),
                               (''status'', JInt (status_code response))])))"
  unfolding reply_def posted_def
  by (auto simp: test_deploy_ready_webhook_def utcnow_def post_def Let_def bind_exn_def
      split: prod.splits sum.splits)

lemma verdict_batch:
  "fst (test_batch_analysis e w) =
     except_Exception (bind_exn (reply test_batch_analysis e w) (\<lambda>response.
        if status_code response = 200 then
          bind_exn (json_of response) (\<lambda>data. Inr (True, data))
        else Inr (False, JObj [(''error'', JStr (body_text response)),
                               (''status'', JInt (status_code response))])))"
  unfolding reply_def posted_def
  by (auto simp: test_batch_analysis_def utcnow_def post_def Let_def bind_exn_def
      split: prod.splits sum.splits)

lemma verdict_market_scan:
  "fst (test_market_scan_action e w) =
     except_Exception (bind_exn (reply test_market_scan_action e w) (\<lambda>response.
        if status_code response = 200 then
          bind_exn (json_of response) (\<lambda>data.
          bind_exn (py_contains ''mockScan'' data) (\<lambda>present.
          bind_exn (if present then print_mock_scan data else Inr ()) (\<lambda>u.
          Inr (True, data))))
        else Inr (False, JObj [(''error'', JStr (body_text response)),
                               (''status'', JInt (status_code response))])))"
  unfolding reply_def posted_def
  by (simp add: test_market_scan_action_def utcnow_def post_def Let_def
      split: prod.splits)

lemma verdict_invalid:
  "fst (test_invalid_payload e w) =
     except_Exception (bind_exn (reply test_invalid_payload e w) (\<lambda>response.
        if status_code response \<noteq> 200 then
          Inr (True, JObj [(''handled_correctly'', JBool True)])
        else bind_exn (json_of response) (\<lambda>data. Inr (False, data))))"
  unfolding reply_def posted_def
  by (simp add: test_invalid_payload_def post_def Let_def split: prod.splits)

text \<open>
  The loop keeps the names in order, posts one request per scenario, and reads only verdicts.
\<close>

lemma run_tests_names:
  "map fst (fst (run_tests ts e acc w)) = map fst acc @ map fst ts"
  by (induction ts e acc w rule: run_tests.induct) (auto split: prod.splits)

lemma run_tests_sent:
  assumes "\<And>n t e w. (n, t) \<in> set ts \<Longrightarrow> length (sent (snd (t e w))) = Suc (length (sent w))"
  shows "length (sent (snd (run_tests ts e acc w))) = length (sent w) + length ts"
  using assms
proof (induction ts arbitrary: acc w)
  case Nil
  then show ?case by simp
next
  case (Cons nt rest)
  obtain test_name test_func where nt: "nt = (test_name, test_func)"
    by (cases nt) 
  obtain success data w' where r: "test_func e w = ((success, data), w')"
    by (metis surj_pair)
  have "length (sent w') = Suc (length (sent w))"
    using Cons.prems[of test_name test_func e w] r nt by simp
  moreover have "length (sent (snd (run_tests rest e (acc @ [(test_name, success)]) (sleep 1 w'))))
      = length (sent (sleep 1 w')) + length rest"
  proof (rule Cons.IH)
    fix n t e' w''
    assume "(n, t) \<in> set rest"
    then show "length (sent (snd (t e' w''))) = Suc (length (sent w''))"
      using Cons.prems[of n t e' w''] by simp
  qed
  ultimately show ?case using r nt by (simp add: sleep_def)
qed

lemma run_tests_step:
  "run_tests ((n, t) # rest) e acc w =
     run_tests rest e (acc @ [(n, fst (fst (t e w)))]) (sleep 1 (snd (t e w)))"
  by (simp split: prod.splits)

lemma main_results_unfolded:
  "main_results e w =
     (let w1 = sleep 1 (snd (test_simple_webhook e w));
          w2 = sleep 1 (snd (test_deploy_ready_webhook e w1));
          w3 = sleep 1 (snd (test_batch_analysis e w2));
          w4 = sleep 1 (snd (test_market_scan_action e w3))
      in [(''Simple Webhook'', fst (fst (test_simple_webhook e w))),
          (''Deploy-Ready Webhook'', fst (fst (test_deploy_ready_webhook e w1))),
          (''Batch Analysis'', fst (fst (test_batch_analysis e w2))),
          (''Market Scan Action'', fst (fst (test_market_scan_action e w3))),
          (''Error Handling'', fst (fst (test_invalid_payload e w4)))])"
  unfolding main_results_def tests_def Let_def
  by (simp only: run_tests_step run_tests.simps(1) append.simps fst_conv)

lemma sent_after_scenario:
  "(n, t) \<in> set tests \<Longrightarrow> length (sent (sleep k (snd (t e w)))) = Suc (length (sent w))"
  using one_post [of n t e w] by (simp add: sleep_def)

lemma detail_is_dropped:
  "run_tests (map (\<lambda>(n, t). (n, \<lambda>e w. case t e w of ((s, d), w') \<Rightarrow> ((s, f d), w'))) ts) e acc w
   = run_tests ts e acc w"
  by (induction ts e acc w rule: run_tests.induct) (auto split: prod.splits)

text \<open>
  Counting passed and failed entries.
\<close>

lemma filter_length_all: "(length (filter P xs) = length xs) = (\<forall>x \<in> set xs. P x)"
proof (induction xs)
  case Nil
  then show ?case by simp
next
  case (Cons x xs)
  have le: "length (filter P xs) \<le> length xs" by simp
  show ?case
  proof (cases "P x")
    case True
    then show ?thesis using Cons by simp
  next
    case False
    have "length (filter P xs) \<noteq> Suc (length xs)" using le by linarith
    then show ?thesis using False by simp
  qed
qed

lemma counts_total: "successful rs + failed rs = length rs"
  unfolding successful_def failed_def
  by (induction rs) auto

lemma successful_all: "(successful rs = length rs) = (\<forall>r \<in> set rs. snd r)"
  unfolding successful_def by (simp add: filter_length_all case_prod_beta)

lemma failed_none: "(failed rs = 0) = (\<forall>r \<in> set rs. snd r)"
  unfolding failed_def by (auto simp: filter_empty_conv)

text \<open>
  The shape of a timestamp: twenty characters, or twenty-seven when microseconds are printed.
\<close>

lemma str_nat_length: "0 < k \<Longrightarrow> n < 10 ^ k \<Longrightarrow> length (str_nat n) \<le> k"
proof (induction n arbitrary: k rule: str_nat.induct)
  case (1 n)
  show ?case
  proof (cases "n < 10")
    case True
    then show ?thesis using "1.prems" by (simp add: str_nat.simps)
  next
    case False
    obtain j where k: "k = Suc j" using "1.prems"(1) by (cases k) auto
    have "0 < j" using False "1.prems"(2) k by (cases j) auto
    moreover have "n div 10 < 10 ^ j" using "1.prems"(2) k
      by (simp add: less_mult_imp_div_less mult.commute)
    ultimately have "length (str_nat (n div 10)) \<le> j"
      using "1.IH" False by simp
    then show ?thesis using False k by (simp add: str_nat.simps [of n])
  qed
qed

lemma zero_pad_length: "0 < k \<Longrightarrow> n < 10 ^ k \<Longrightarrow> length (zero_pad k n) = k"
  using str_nat_length [of k n] by (simp add: zero_pad_def)

lemma isoformat_length:
  assumes "year d < 10000" "month d < 100" "day d < 100" "hour d < 100" "minute d < 100"
    "second d < 100" "microsecond d < 1000000"
  shows "length (isoformat d @ ''Z'') = (if microsecond d = 0 then 20 else 27)"
  using assms by (simp add: isoformat_def zero_pad_length)

text \<open>
  When the market-scan scenario passes on a status 200 answer.
\<close>

lemma market_scan_passes_without_mock_scan:
  assumes "reply test_market_scan_action e w = Inr response"
    and "status_code response = 200"
    and "json_of response = Inr (JObj kvs)"
    and "''mockScan'' \<notin> set (map fst kvs)"
  shows "fst (test_market_scan_action e w) = (True, JObj kvs)"
  using assms by (simp add: verdict_market_scan except_Exception_def bind_exn_def)

lemma market_scan_passes_with_complete_mock_scan:
  assumes "reply test_market_scan_action e w = Inr response"
    and "status_code response = 200"
    and "json_of response = Inr (JObj kvs)"
    and "map_of kvs ''mockScan'' = Some (JObj m)"
    and "map_of m ''totalScanned'' = Some a"
    and "map_of m ''filtered'' = Some b"
    and "map_of m ''queued'' = Some c"
    and "map_of m ''candidates'' = Some (JArr cs)"
  shows "fst (test_market_scan_action e w) = (True, JObj kvs)"
proof -
  have "''mockScan'' \<in> set (map fst kvs)"
    using assms(4) by (metis domI dom_map_of_conv_image_fst set_map)
  then show ?thesis
    using assms
    by (simp add: verdict_market_scan except_Exception_def bind_exn_def print_mock_scan_def)
qed

lemma positive_pass_empty_body:
  assumes "(n, t) \<in> set (butlast tests)"
    and "reply t e w = Inr (Response 200 txt (Inr (JObj [])))"
  shows "fst (t e w) = (True, JObj [])"
  using assms
  by (auto simp: tests_def verdict_simple verdict_deploy_ready verdict_batch
      verdict_market_scan except_Exception_def bind_exn_def)

section \<open>The negative scenario\<close>

text \<open>
  Claim C1, as the code has it: the empty-symbols scenario passes exactly when a response
  arrives and its status code is not 200. It fails on status 200, and it fails as well when
  \<^verbatim>\<open>requests.post\<close> raises (time-out or any other transport error), because the
  \<^verbatim>\<open>except\<close> branch returns \<^verbatim>\<open>False\<close>.
\<close>

theorem negative_scenario_verdict:
  "fst (fst (test_invalid_payload e w)) =
     (case reply test_invalid_payload e w of
        Inl x \<Rightarrow> False
      | Inr response \<Rightarrow> status_code response \<noteq> 200)"
  by (simp add: verdict_invalid except_Exception_def bind_exn_def split: sum.splits)

theorem negative_scenario_verdict_witness:
  "reply test_invalid_payload mock_reject world0 =
     Inr (Response 400 ''Bad Request''
            (Inl (JSONDecodeError ''Expecting value: line 1 column 1 (char 0)'')))
   \<and> fst (fst (test_invalid_payload mock_reject world0))"
proof -
  have r: "reply test_invalid_payload mock_reject world0 =
     Inr (Response 400 ''Bad Request''
            (Inl (JSONDecodeError ''Expecting value: line 1 column 1 (char 0)'')))"
    by (simp add: reply_def mock_reject_def)
  show ?thesis
    using negative_scenario_verdict [of mock_reject world0] r by simp
qed

text \<open>
  Claim C1 as stated counts a transport error as a rejection, hence a pass. Against an
  endpoint that times out the scenario is marked failed.
\<close>

theorem negative_scenario_transport_error_fails:
  "reply test_invalid_payload mock_down world0 = Inl (RequestException ''Read timed out.'')
   \<and> \<not> fst (fst (test_invalid_payload mock_down world0))"
  by (simp add: run_defs mock_defs)

text \<open>
  Claim C9: when the empty-symbols scenario passes, the dictionary it returns is exactly
  \<^verbatim>\<open>{"handled_correctly": True}\<close>; neither the status code nor the body of the rejecting
  response is in it.
\<close>

theorem negative_pass_detail:
  "fst (fst (test_invalid_payload e w)) \<Longrightarrow>
   snd (fst (test_invalid_payload e w)) = JObj [(''handled_correctly'', JBool True)]"
  by (auto simp: verdict_invalid except_Exception_def bind_exn_def
      split: sum.splits if_splits)

theorem negative_pass_detail_witness:
  "fst (fst (test_invalid_payload mock_reject world0))
   \<and> snd (fst (test_invalid_payload mock_reject world0)) =
       JObj [(''handled_correctly'', JBool True)]"
proof -
  have p: "fst (fst (test_invalid_payload mock_reject world0))"
    by (simp add: run_defs mock_defs Let_def)
  show ?thesis
    using negative_pass_detail [OF p] p by simp
qed

section \<open>Bodies that are not JSON\<close>

text \<open>
  Claim C2, as the code has it: for every scenario, a response whose body is not JSON never
  lets an exception escape. With a status other than 200 the body is not parsed: the four
  positive scenarios fail with the raw text under \<^verbatim>\<open>"error"\<close> and the code under
  \<^verbatim>\<open>"status"\<close>, the negative scenario passes. With status 200 the decoding error is caught
  by the scenario's own handler and the scenario is marked failed, its detail holding the
  message of the decoding error, not the raw text.
\<close>

theorem non_json_body_outcome:
  assumes "(n, t) \<in> set tests"
    and "reply t e w = Inr response"
    and "json_of response = Inl x"
  shows "fst (t e w) =
     (if status_code response = 200 then (False, JObj [(''error'', JStr (str_exn x))])
      else if n = ''Error Handling'' then (True, JObj [(''handled_correctly'', JBool True)])
      else (False, JObj [(''error'', JStr (body_text response)),
                         (''status'', JInt (status_code response))]))"
  using assms
  by (auto simp: tests_def verdict_simple verdict_deploy_ready verdict_batch
      verdict_market_scan verdict_invalid except_Exception_def bind_exn_def)

theorem non_json_body_outcome_witness:
  "(''Batch Analysis'', test_batch_analysis) \<in> set tests
   \<and> reply test_batch_analysis mock_reject world0 =
       Inr (Response 400 ''Bad Request''
              (Inl (JSONDecodeError ''Expecting value: line 1 column 1 (char 0)'')))
   \<and> fst (test_batch_analysis mock_reject world0) =
       (False, JObj [(''error'', JStr ''Bad Request''), (''status'', JInt 400)])"
proof -
  have m: "(''Batch Analysis'', test_batch_analysis) \<in> set tests"
    by (simp add: tests_def)
  have r: "reply test_batch_analysis mock_reject world0 =
       Inr (Response 400 ''Bad Request''
              (Inl (JSONDecodeError ''Expecting value: line 1 column 1 (char 0)'')))"
    by (simp add: reply_def mock_reject_def)
  show ?thesis
    using non_json_body_outcome [OF m r] m r by simp
qed

text \<open>
  Claim C2 as stated says that a body that is not JSON is kept as raw text and cannot cause a
  failure. The simple-webhook scenario, answered with status 200 and a web page, is marked
  failed, and its detail is the decoder's message.
\<close>

theorem non_json_body_fails_simple_webhook:
  "reply test_simple_webhook mock_html world0 =
     Inr (Response 200 ''<html>ok</html>''
            (Inl (JSONDecodeError ''Expecting value: line 1 column 1 (char 0)'')))
   \<and> fst (test_simple_webhook mock_html world0) =
       (False, JObj [(''error'', JStr ''Expecting value: line 1 column 1 (char 0)'')])"
  by (simp add: run_defs mock_defs)

section \<open>The market-scan display\<close>

text \<open>
  Claim C3 says that \<^verbatim>\<open>mockScan\<close> is read for display only, so that every status 200
  answer passes whatever \<^verbatim>\<open>mockScan\<close> holds. The code guards the display with
  \<^verbatim>\<open>"mockScan" in data\<close> but reads the four subfields unguarded inside the \<^verbatim>\<open>try\<close>:
  on the answer \<^verbatim>\<open>{"mockScan": {"totalScanned": 50}}\<close> the lookup of \<^verbatim>\<open>'filtered'\<close> raises
  \<^verbatim>\<open>KeyError\<close>, the handler catches it, and the scenario is marked failed.
\<close>

theorem market_scan_partial_mock_scan_fails:
  "reply test_market_scan_action mock_partial_scan world0 =
     Inr (Response 200 ''{\"mockScan\": {\"totalScanned\": 50}}''
            (Inr (JObj [(''mockScan'', JObj [(''totalScanned'', JInt 50)])])))
   \<and> fst (test_market_scan_action mock_partial_scan world0) =
       (False, JObj [(''error'', JStr (quoted ''filtered''))])"
  by (simp add: run_defs mock_defs print_mock_scan_def)

section \<open>Transport failures\<close>

text \<open>
  Claim C6: when the request of a scenario times out or fails in transport, the scenario
  returns \<^verbatim>\<open>False\<close> with the dictionary \<^verbatim>\<open>{"error": str(e)}\<close>: the message is there and no
  \<^verbatim>\<open>"status"\<close> entry is. The request is not retried: the scenario has posted exactly one
  request, and a whole run posts exactly one per scenario.
\<close>

theorem transport_failure_outcome:
  assumes "(n, t) \<in> set tests"
    and "reply t e w = Inl x"
  shows "fst (t e w) = (False, JObj [(''error'', JStr (str_exn x))])
   \<and> dict_get (snd (fst (t e w))) ''status'' = None
   \<and> dict_get (snd (fst (t e w))) ''error'' = Some (JStr (str_exn x))
   \<and> sent (snd (t e w)) = sent w @ [posted t e w]
   \<and> length (sent (snd (main e w))) = length (sent w) + length tests"
proof -
  have v: "fst (t e w) = (False, JObj [(''error'', JStr (str_exn x))])"
    using assms
    by (auto simp: tests_def verdict_simple verdict_deploy_ready verdict_batch
        verdict_market_scan verdict_invalid except_Exception_def bind_exn_def)
  have p: "sent (snd (t e w)) = sent w @ [posted t e w]"
    using assms(1) by (rule one_post)
  have "length (sent (snd (run_tests tests e [] w))) = length (sent w) + length tests"
  proof (rule run_tests_sent)
    fix n' t' e' w'
    assume "(n', t') \<in> set tests"
    then show "length (sent (snd (t' e' w'))) = Suc (length (sent w'))"
      using one_post [of n' t' e' w'] by simp
  qed
  moreover have "snd (main e w) = snd (run_tests tests e [] w)"
    by (simp add: main_def split: prod.splits)
  ultimately have m: "length (sent (snd (main e w))) = length (sent w) + length tests"
    by simp
  show ?thesis using v p m by simp
qed

theorem transport_failure_outcome_witness:
  "(''Batch Analysis'', test_batch_analysis) \<in> set tests
   \<and> reply test_batch_analysis mock_down world0 = Inl (RequestException ''Read timed out.'')
   \<and> fst (test_batch_analysis mock_down world0) =
       (False, JObj [(''error'', JStr ''Read timed out.'')])
   \<and> length (sent (snd (test_batch_analysis mock_down world0))) = 1
   \<and> length (sent (snd (main mock_down world0))) = 5"
proof -
  have m: "(''Batch Analysis'', test_batch_analysis) \<in> set tests"
    by (simp add: tests_def)
  have r: "reply test_batch_analysis mock_down world0 = Inl (RequestException ''Read timed out.'')"
    by (simp add: reply_def mock_down_def)
  have s: "sent world0 = []" "length tests = 5"
    by (simp_all add: world0_def tests_def)
  show ?thesis
    using transport_failure_outcome [OF m r] m r s by simp
qed

section \<open>Payloads\<close>

text \<open>
  Claim C7, as the code has it: the simple, deploy-ready and market-scan payloads are their
  static fields followed by a top-level \<^verbatim>\<open>timestamp\<close> holding
  \<^verbatim>\<open>datetime.utcnow().isoformat() + "Z"\<close>; the batch payload carries that timestamp inside
  \<^verbatim>\<open>metadata\<close> and has none at top level; the empty-symbols payload is exactly
  \<^verbatim>\<open>{"symbols": [], "priority": "normal"}\<close> and the clock is not read for it.
\<close>

theorem scenario_payloads:
  "payload (posted test_simple_webhook e w) =
     JObj [(''test'', JStr ''simple''),
           (''timestamp'', JStr (isoformat (clock e (clock_reads w)) @ ''Z''))]
   \<and> payload (posted test_deploy_ready_webhook e w) =
     JObj [(''action'', JStr ''test''),
           (''source'', JStr ''python-test-script''),
           (''timestamp'', JStr (isoformat (clock e (clock_reads w)) @ ''Z''))]
   \<and> payload (posted test_market_scan_action e w) =
     JObj [(''action'', JStr ''market_scan''),
           (''filters'', JObj [(''limit'', JInt 10), (''minVolume'', JInt 1000000),
                               (''minPrice'', JInt 5), (''maxPrice'', JInt 500)]),
           (''timestamp'', JStr (isoformat (clock e (clock_reads w)) @ ''Z''))]
   \<and> payload (posted test_batch_analysis e w) =
     JObj [(''symbols'', JArr [JStr ''AAPL'', JStr ''MSFT'', JStr ''GOOGL'', JStr ''TSLA'',
                               JStr ''AMZN'', JStr ''META'', JStr ''NVDA'']),
           (''priority'', JStr ''normal''),
           (''metadata'', JObj [(''source'', JStr ''python-test-script''),
                                (''test'', JBool True),
                                (''timestamp'', JStr (isoformat (clock e (clock_reads w)) @ ''Z''))])]
   \<and> dict_get (payload (posted test_batch_analysis e w)) ''timestamp'' = None
   \<and> payload (posted test_invalid_payload e w) =
     JObj [(''symbols'', JArr []), (''priority'', JStr ''normal'')]
   \<and> clock_reads (snd (test_invalid_payload e w)) = clock_reads w"
  by (simp add: posted_def scenario_defs utcnow_def post_def Let_def split: prod.splits)

theorem scenario_payloads_witness:
  "payload (posted test_simple_webhook mock_example world0) =
     JObj [(''test'', JStr ''simple''), (''timestamp'', JStr ''2025-07-04T09:30:05Z'')]
   \<and> payload (posted test_invalid_payload mock_example world0) =
     JObj [(''symbols'', JArr []), (''priority'', JStr ''normal'')]"
  using scenario_payloads [of mock_example world0]
  by (simp add: mock_example_def world0_def fixed_clock_def isoformat_def zero_pad_def
      str_nat.simps)

text \<open>
  Claim C7 as stated gives every scenario's payload a timestamp. The payload of the
  empty-symbols scenario has none.
\<close>

theorem invalid_payload_has_no_timestamp:
  "payload (posted test_invalid_payload mock_example world0) =
     JObj [(''symbols'', JArr []), (''priority'', JStr ''normal'')]
   \<and> dict_get (payload (posted test_invalid_payload mock_example world0)) ''timestamp'' = None"
  by (simp add: posted_def test_invalid_payload_def post_def Let_def world0_def)

section \<open>The summary\<close>

text \<open>
  Claim C4: the passed and failed counts add up to the number of results, which is the number
  of scenarios; \<^verbatim>\<open>main\<close> returns \<^verbatim>\<open>True\<close>, and the exit status is 0, exactly when every
  scenario passed, that is when the failed count is 0; otherwise the exit status is 1.
\<close>

theorem suite_summary_counts:
  "successful (main_results e w) + failed (main_results e w) = length (main_results e w)
   \<and> length (main_results e w) = length tests
   \<and> snd (fst (main e w)) = (\<forall>r \<in> set (main_results e w). snd r)
   \<and> (exit_status e w = 0) = (\<forall>r \<in> set (main_results e w). snd r)
   \<and> (exit_status e w = 0) = (failed (main_results e w) = 0)
   \<and> (exit_status e w \<noteq> 0 \<longrightarrow> exit_status e w = 1)"
proof -
  let ?rs = "main_results e w"
  have len: "length ?rs = length tests"
    using run_tests_names [of tests e "[]" w]
    by (metis append_Nil length_map list.simps(8) main_results_def)
  have ret: "snd (fst (main e w)) = (\<forall>r \<in> set ?rs. snd r)"
    by (simp add: main_def main_results_def successful_all split: prod.splits)
  have ex0: "(exit_status e w = 0) = (\<forall>r \<in> set ?rs. snd r)"
    using ret by (simp add: exit_status_def)
  have ex1: "exit_status e w \<noteq> 0 \<longrightarrow> exit_status e w = 1"
    by (simp add: exit_status_def)
  have fl: "(exit_status e w = 0) = (failed ?rs = 0)"
    using ex0 failed_none [of ?rs] by simp
  show ?thesis
    using counts_total [of ?rs] len ret ex0 ex1 fl by blast
qed

theorem suite_summary_counts_witness:
  "successful (main_results mock_html world0) + failed (main_results mock_html world0) = 5
   \<and> failed (main_results mock_html world0) = 5
   \<and> exit_status mock_html world0 = 1"
proof -
  have rs: "main_results mock_html world0 =
      [(''Simple Webhook'', False), (''Deploy-Ready Webhook'', False),
       (''Batch Analysis'', False), (''Market Scan Action'', False),
       (''Error Handling'', False)]"
    by (simp add: main_results_def tests_def run_defs mock_defs)
  show ?thesis
    using suite_summary_counts [of mock_html world0] rs
    by (simp add: failed_def)
qed

text \<open>
  Claim C5: whatever the network does (status 200, another status, a time-out, a transport
  error, a body that is not JSON), a run yields exactly one result per scenario, in the order
  of declaration.
\<close>

theorem one_result_per_scenario:
  "map fst (main_results e w) =
     [''Simple Webhook'', ''Deploy-Ready Webhook'', ''Batch Analysis'', ''Market Scan Action'',
      ''Error Handling'']
   \<and> map fst (main_results e w) = map fst tests
   \<and> length (main_results e w) = length tests"
proof -
  have names: "map fst (main_results e w) = map fst tests"
    using run_tests_names [of tests e "[]" w] by (simp add: main_results_def)
  have "length (main_results e w) = length tests"
    using names by (metis length_map)
  then show ?thesis using names by (simp add: tests_def)
qed

theorem one_result_per_scenario_witness:
  "map fst (main_results mock_down world0) =
     [''Simple Webhook'', ''Deploy-Ready Webhook'', ''Batch Analysis'', ''Market Scan Action'',
      ''Error Handling'']
   \<and> length (main_results mock_down world0) = 5"
  using one_result_per_scenario [of mock_down world0] by (simp add: tests_def)

text \<open>
  Claim C8: against an endpoint that answers status 200 with body \<^verbatim>\<open>{}\<close> to the first four
  requests of the run and status 422 to the fifth, all five scenarios pass, the tally reads
  5 total, 5 successful, 0 failed, \<^verbatim>\<open>main\<close> returns \<^verbatim>\<open>True\<close> and the exit status is 0.
\<close>

theorem end_to_end_example:
  assumes ok: "\<And>log r. length log < length (sent w) + 4 \<Longrightarrow>
                 \<exists>txt. server e log r = Inr (Response 200 txt (Inr (JObj [])))"
    and rej: "\<And>log r. length log = length (sent w) + 4 \<Longrightarrow>
                 \<exists>txt js. server e log r = Inr (Response 422 txt js)"
  shows "main_results e w =
           [(''Simple Webhook'', True), (''Deploy-Ready Webhook'', True),
            (''Batch Analysis'', True), (''Market Scan Action'', True),
            (''Error Handling'', True)]
   \<and> fst (fst (main e w)) =
           [''Total Tests: 5'', GREEN @ ''Successful: 5'' @ RESET, RED @ ''Failed: 0'' @ RESET]
   \<and> snd (fst (main e w))
   \<and> exit_status e w = 0"
proof -
  let ?w1 = "sleep 1 (snd (test_simple_webhook e w))"
  let ?w2 = "sleep 1 (snd (test_deploy_ready_webhook e ?w1))"
  let ?w3 = "sleep 1 (snd (test_batch_analysis e ?w2))"
  let ?w4 = "sleep 1 (snd (test_market_scan_action e ?w3))"
  have l1: "length (sent ?w1) = length (sent w) + 1"
    using sent_after_scenario [of "''Simple Webhook''" test_simple_webhook 1 e w]
    by (simp add: tests_def)
  have l2: "length (sent ?w2) = length (sent w) + 2"
    using l1 sent_after_scenario [of "''Deploy-Ready Webhook''" test_deploy_ready_webhook 1 e "?w1"]
    by (simp add: tests_def)
  have l3: "length (sent ?w3) = length (sent w) + 3"
    using l2 sent_after_scenario [of "''Batch Analysis''" test_batch_analysis 1 e "?w2"]
    by (simp add: tests_def)
  have l4: "length (sent ?w4) = length (sent w) + 4"
    using l3 sent_after_scenario [of "''Market Scan Action''" test_market_scan_action 1 e "?w3"]
    by (simp add: tests_def)
  have pos: "fst (t e w') = (True, JObj [])"
    if mem: "(n, t) \<in> set (butlast tests)" and len: "length (sent w') < length (sent w) + 4"
    for n t w'
  proof -
    obtain b where "reply t e w' = Inr (Response 200 b (Inr (JObj [])))"
      using ok [OF len, of "posted t e w'"] unfolding reply_def by blast
    with mem show ?thesis by (rule positive_pass_empty_body)
  qed
  have v1: "fst (fst (test_simple_webhook e w))"
    using pos [of "''Simple Webhook''" test_simple_webhook w] by (simp add: tests_def)
  have v2: "fst (fst (test_deploy_ready_webhook e ?w1))"
    using pos [of "''Deploy-Ready Webhook''" test_deploy_ready_webhook "?w1"] l1
    by (simp add: tests_def)
  have v3: "fst (fst (test_batch_analysis e ?w2))"
    using pos [of "''Batch Analysis''" test_batch_analysis "?w2"] l2 by (simp add: tests_def)
  have v4: "fst (fst (test_market_scan_action e ?w3))"
    using pos [of "''Market Scan Action''" test_market_scan_action "?w3"] l3
    by (simp add: tests_def)
  obtain b js where "reply test_invalid_payload e ?w4 = Inr (Response 422 b js)"
    using rej [OF l4, of "posted test_invalid_payload e ?w4"] unfolding reply_def by blast
  then have v5: "fst (fst (test_invalid_payload e ?w4))"
    by (simp add: verdict_invalid except_Exception_def bind_exn_def)
  have rs: "main_results e w =
           [(''Simple Webhook'', True), (''Deploy-Ready Webhook'', True),
            (''Batch Analysis'', True), (''Market Scan Action'', True),
            (''Error Handling'', True)]"
    using v1 v2 v3 v4 v5 by (simp add: main_results_unfolded Let_def)
  have m: "fst (main e w) =
      (tally (main_results e w), successful (main_results e w) = length (main_results e w))"
    by (simp add: main_def main_results_def split: prod.splits)
  have t: "tally (main_results e w) =
      [''Total Tests: 5'', GREEN @ ''Successful: 5'' @ RESET, RED @ ''Failed: 0'' @ RESET]"
    unfolding rs by (simp add: tally_def successful_def failed_def str_nat.simps)
  have r: "snd (fst (main e w))"
    unfolding m rs by (simp add: successful_def)
  show ?thesis
    using rs t r m by (simp add: exit_status_def)
qed

theorem end_to_end_example_witness:
  "main_results mock_example world0 =
           [(''Simple Webhook'', True), (''Deploy-Ready Webhook'', True),
            (''Batch Analysis'', True), (''Market Scan Action'', True),
            (''Error Handling'', True)]
   \<and> fst (fst (main mock_example world0)) =
           [''Total Tests: 5'', GREEN @ ''Successful: 5'' @ RESET, RED @ ''Failed: 0'' @ RESET]
   \<and> snd (fst (main mock_example world0))
   \<and> exit_status mock_example world0 = 0"
proof (rule end_to_end_example)
  fix log :: "request list" and r :: request
  assume "length log < length (sent world0) + 4"
  then show "\<exists>txt. server mock_example log r = Inr (Response 200 txt (Inr (JObj [])))"
    by (simp add: mock_example_def world0_def)
next
  fix log :: "request list" and r :: request
  assume "length log = length (sent world0) + 4"
  then show "\<exists>txt js. server mock_example log r = Inr (Response 422 txt js)"
    by (simp add: mock_example_def world0_def)
qed

text \<open>
  Claim C10: two runs with the same sequence of verdicts print the same tally, return the same
  value and exit with the same status, whatever dictionaries their scenarios returned.
\<close>

theorem summary_depends_on_verdicts_only:
  assumes "map snd (main_results e1 w1) = map snd (main_results e2 w2)"
  shows "fst (main e1 w1) = fst (main e2 w2)
   \<and> exit_status e1 w1 = exit_status e2 w2
   \<and> successful (main_results e1 w1) = successful (main_results e2 w2)
   \<and> failed (main_results e1 w1) = failed (main_results e2 w2)"
proof -
  have "map fst (main_results e1 w1) = map fst (main_results e2 w2)"
    using run_tests_names [of tests e1 "[]" w1] run_tests_names [of tests e2 "[]" w2]
    by (simp add: main_results_def)
  with assms have eq: "main_results e1 w1 = main_results e2 w2"
    by (metis zip_map_fst_snd)
  have m: "fst (main e w) =
      (tally (main_results e w), successful (main_results e w) = length (main_results e w))"
    for e w
    by (simp add: main_def main_results_def split: prod.splits)
  show ?thesis
    using eq by (simp add: m exit_status_def)
qed

theorem summary_depends_on_verdicts_only_witness:
  "map snd (main_results mock_down world0) = map snd (main_results mock_html world0)
   \<and> snd (fst (test_simple_webhook mock_down world0)) \<noteq>
       snd (fst (test_simple_webhook mock_html world0))
   \<and> fst (main mock_down world0) = fst (main mock_html world0)
   \<and> exit_status mock_down world0 = exit_status mock_html world0"
proof -
  have v: "map snd (main_results mock_down world0) = map snd (main_results mock_html world0)"
    by (simp add: main_results_def tests_def run_defs mock_defs)
  have d: "snd (fst (test_simple_webhook mock_down world0)) \<noteq>
       snd (fst (test_simple_webhook mock_html world0))"
    by (simp add: run_defs mock_defs)
  show ?thesis
    using summary_depends_on_verdicts_only [OF v] v d by simp
qed

end
